theory Spec2Isabelle
  imports Complex_Main
begin

section \<open>Data model of the study focus bot\<close>

text \<open>
  The bot keeps one in-memory record per Telegram user (\<open>userStore\<close>) and one table of
  scheduled job handles per user (\<open>timerStore\<close>). This theory embeds the session timer
  (start, pause, resume, stop, the minute tick and the completion handler), the statistics
  update \<open>addCompletedSession\<close> and the productivity score.

  Conventions of the embedding:
  \<^item> A \<open>Date\<close> is its number of milliseconds since the epoch, an \<open>int\<close>; \<open>new Date()\<close>
    and \<open>moment()\<close> read a clock that every operation receives as the argument \<open>now\<close>.
  \<^item> A calendar date \<open>YYYY-MM-DD\<close> is the number of the day since the epoch, in UTC.
  \<^item> A JavaScript number is a real number, \<open>Math.round\<close> is \<open>round\<close> (halves go up
    in both) and \<open>Math.floor\<close> is \<open>floor\<close>. The paused minutes of a session, which the
    code accumulates as a sum of quotients, are a double: the division and the addition
    that \<open>resumeFocusTimer\<close> makes round their result to the nearest double
    (\<open>toDouble\<close>). The other quotients are taken exactly.
  \<^item> Every operation runs to its end before the next one starts; the text that is sent to
    the chat is left out, the success or failure of a send that the control flow depends
    on is an argument.
  \<^item> The task list and the two input-mode flags of the session
    (\<open>awaitingCustomDuration\<close>, \<open>awaitingTaskInput\<close>) belong to the command layer and are
    left out.
\<close>

type_synonym timestamp = int

record session =
  isStudying :: bool
  studyStartTime :: "timestamp option"
  pauseStartTime :: "timestamp option"
  totalPausedTime :: int
  pausedDuration :: real
  messageId :: "int option"
  plannedDuration :: int

record stats =
  totalStudyTime :: int
  totalSessions :: int
  longestSession :: int
  totalCompletedTasks :: int
  streak :: int
  lastStudyDate :: "timestamp option"
  dailyStudyTime :: "int \<rightharpoonup> int"

record user_data =
  session :: session
  stats :: stats

datatype timer_type = Update | End | Break

text \<open>
  A scheduled job, with what its callback has captured: the minute tick holds the start and
  end time of the session that scheduled it, the completion job its firing time and the
  duration in minutes, the break reminder its firing time.
\<close>

datatype job =
  UpdateJob timestamp timestamp
| EndJob timestamp int
| BreakJob timestamp

record world =
  userStore :: "int \<rightharpoonup> user_data"
  timerStore :: "int \<rightharpoonup> (timer_type \<rightharpoonup> job)"

definition defaultSession :: session where
  "defaultSession =
     \<lparr>isStudying = False, studyStartTime = None, pauseStartTime = None,
      totalPausedTime = 0, pausedDuration = 0, messageId = None, plannedDuration = 0\<rparr>"

definition defaultStats :: stats where
  "defaultStats =
     \<lparr>totalStudyTime = 0, totalSessions = 0, longestSession = 0, totalCompletedTasks = 0,
      streak = 0, lastStudyDate = None, dailyStudyTime = Map.empty\<rparr>"

definition defaultUserData :: user_data where
  "defaultUserData = \<lparr>session = defaultSession, stats = defaultStats\<rparr>"

definition initialWorld :: world where
  "initialWorld = \<lparr>userStore = Map.empty, timerStore = Map.empty\<rparr>"

section \<open>The in-memory store\<close>

definition initializeUserData :: "int \<Rightarrow> (int \<rightharpoonup> user_data) \<Rightarrow> (int \<rightharpoonup> user_data)" where
  "initializeUserData userId store =
     (case store userId of
        None \<Rightarrow> store(userId \<mapsto> defaultUserData)
      | Some u \<Rightarrow> store)"

text \<open>
  What \<open>userStore.get(userId)\<close> returns once \<open>initializeUserData\<close> has run. The getters
  of the source initialise the store first; the operations below apply
  \<open>initializeUserData\<close> to the store they return wherever the source calls a getter.
\<close>

definition lookupUser :: "int \<Rightarrow> (int \<rightharpoonup> user_data) \<Rightarrow> user_data" where
  "lookupUser userId store =
     (case store userId of None \<Rightarrow> defaultUserData | Some u \<Rightarrow> u)"

definition getUserSession :: "int \<Rightarrow> (int \<rightharpoonup> user_data) \<Rightarrow> session" where
  "getUserSession userId store = session (lookupUser userId store)"

definition getUserStats :: "int \<Rightarrow> (int \<rightharpoonup> user_data) \<Rightarrow> stats" where
  "getUserStats userId store = stats (lookupUser userId store)"

text \<open>
  \<open>updateUserSession\<close> merges the given fields into the session; the merge is the
  function \<open>f\<close> here.
\<close>

definition updateUserSession ::
  "int \<Rightarrow> (session \<Rightarrow> session) \<Rightarrow> (int \<rightharpoonup> user_data) \<Rightarrow> (int \<rightharpoonup> user_data)" where
  "updateUserSession userId f store =
     (let userData = lookupUser userId store
      in store(userId \<mapsto> userData\<lparr>session := f (session userData)\<rparr>))"

definition dayOf :: "timestamp \<Rightarrow> int" where
  "dayOf t = t div 86400000"

text \<open>The statistics part of \<open>addCompletedSession\<close>, on one user's record.\<close>

definition commitStats :: "int \<Rightarrow> timestamp \<Rightarrow> stats \<Rightarrow> stats" where
  "commitStats durationMinutes now st =
     (let today = dayOf now;
          daily = dailyStudyTime st;
          newStreak =
            (case lastStudyDate st of
               None \<Rightarrow> 1
             | Some d \<Rightarrow>
                 if today - dayOf d = 1 then streak st + 1
                 else if today = dayOf d then streak st
                 else 1)
      in st\<lparr>totalStudyTime := totalStudyTime st + durationMinutes,
            totalSessions := totalSessions st + 1,
            longestSession :=
              (if durationMinutes > longestSession st then durationMinutes
               else longestSession st),
            dailyStudyTime :=
              daily(today \<mapsto> (case daily today of None \<Rightarrow> 0 | Some m \<Rightarrow> m) + durationMinutes),
            streak := newStreak,
            lastStudyDate := Some now\<rparr>)"

definition addCompletedSession ::
  "int \<Rightarrow> int \<Rightarrow> timestamp \<Rightarrow> (int \<rightharpoonup> user_data) \<Rightarrow> (int \<rightharpoonup> user_data)" where
  "addCompletedSession userId durationMinutes now store =
     (let userData = lookupUser userId store
      in store(userId \<mapsto> userData\<lparr>stats := commitStats durationMinutes now (stats userData)\<rparr>))"

definition storeTimer ::
  "int \<Rightarrow> timer_type \<Rightarrow> job \<Rightarrow> (int \<rightharpoonup> (timer_type \<rightharpoonup> job)) \<Rightarrow> (int \<rightharpoonup> (timer_type \<rightharpoonup> job))" where
  "storeTimer userId timerType timer ts =
     (let userTimers = (case ts userId of None \<Rightarrow> Map.empty | Some m \<Rightarrow> m)
      in ts(userId \<mapsto> userTimers(timerType \<mapsto> timer)))"

definition removeTimer ::
  "int \<Rightarrow> timer_type \<Rightarrow> (int \<rightharpoonup> (timer_type \<rightharpoonup> job)) \<Rightarrow> (int \<rightharpoonup> (timer_type \<rightharpoonup> job))" where
  "removeTimer userId timerType ts =
     (case ts userId of
        None \<Rightarrow> ts
      | Some userTimers \<Rightarrow>
          (case userTimers timerType of
             None \<Rightarrow> ts
           | Some j \<Rightarrow> ts(userId \<mapsto> userTimers(timerType := None))))"

text \<open>The handle that \<open>getAllActiveTimers().get(userId)\<close> holds under a timer type.\<close>

definition activeTimer :: "int \<Rightarrow> timer_type \<Rightarrow> (int \<rightharpoonup> (timer_type \<rightharpoonup> job)) \<Rightarrow> job option" where
  "activeTimer userId timerType ts =
     (case ts userId of None \<Rightarrow> None | Some userTimers \<Rightarrow> userTimers timerType)"

section \<open>Doubles\<close>

text \<open>
  The value of a real number as an IEEE 754 double: the nearest multiple of the unit in
  the last place, 53 bits below the leading bit of the number and never below \<open>2^-1074\<close>,
  a tie going to the even multiple. \<open>binaryExponent\<close> finds the leading bit by halving or
  doubling, which the range of the doubles bounds. Infinity and NaN are not modelled: a
  number of \<open>2^1024\<close> or more has no double.
\<close>

fun halvings :: "nat \<Rightarrow> real \<Rightarrow> nat" where
  "halvings 0 y = 0"
| "halvings (Suc n) y = (if 2 \<le> y then Suc (halvings n (y / 2)) else 0)"

fun doublings :: "nat \<Rightarrow> real \<Rightarrow> nat" where
  "doublings 0 y = 0"
| "doublings (Suc n) y = (if y < 1 then Suc (doublings n (y * 2)) else 0)"

definition binaryExponent :: "real \<Rightarrow> int" where
  "binaryExponent y = (if 1 \<le> y then int (halvings 1024 y) else - int (doublings 1075 y))"

definition pow2 :: "int \<Rightarrow> real" where
  "pow2 e = (if 0 \<le> e then 2 ^ nat e else 1 / 2 ^ nat (- e))"

definition roundHalfEven :: "real \<Rightarrow> int" where
  "roundHalfEven y =
     (let f = \<lfloor>y\<rfloor>; r = y - of_int f
      in if r < 1 / 2 then f else if 1 / 2 < r then f + 1 else if even f then f else f + 1)"

definition toDouble :: "real \<Rightarrow> real" where
  "toDouble x =
     (if x = 0 then 0
      else (let u = pow2 (max (binaryExponent \<bar>x\<bar> - 52) (- 1074))
            in of_int (roundHalfEven (x / u)) * u))"

text \<open>The operators \<open>/\<close> and \<open>+\<close> of JavaScript on two doubles.\<close>

definition doubleDiv :: "real \<Rightarrow> real \<Rightarrow> real" where
  "doubleDiv x y = toDouble (x / y)"

definition doubleAdd :: "real \<Rightarrow> real \<Rightarrow> real" where
  "doubleAdd x y = toDouble (x + y)"

section \<open>The timer service\<close>

datatype session_state = Idle | Running | Paused

text \<open>
  The session record has no state field: the three states of the timer are read off
  \<open>isStudying\<close> and \<open>pauseStartTime\<close>, as the guards of pause and resume do.
\<close>

definition sessionState :: "session \<Rightarrow> session_state" where
  "sessionState s =
     (if \<not> isStudying s then Idle
      else if pauseStartTime s \<noteq> None then Paused
      else Running)"

definition resetSession :: "session \<Rightarrow> session" where
  "resetSession s =
     s\<lparr>isStudying := False, studyStartTime := None, pauseStartTime := None,
       totalPausedTime := 0, pausedDuration := 0, messageId := None\<rparr>"

definition stopFocusTimer :: "int \<Rightarrow> timestamp \<Rightarrow> world \<Rightarrow> world" where
  "stopFocusTimer chatId now w =
     (let store0 = initializeUserData chatId (userStore w);
          s = getUserSession chatId store0;
          timers = removeTimer chatId End (removeTimer chatId Update (timerStore w));
          store1 =
            (case studyStartTime s of
               None \<Rightarrow> store0
             | Some start \<Rightarrow>
                 if isStudying s then
                   (let studyDuration = (of_int (now - start - totalPausedTime s) :: real) / 60000
                    in if studyDuration > 1
                       then addCompletedSession chatId (round studyDuration) now store0
                       else store0)
                 else store0)
      in \<lparr>userStore = updateUserSession chatId resetSession store1, timerStore = timers\<rparr>)"

datatype start_error = InvalidTimerParameters | SendFailed

record start_result =
  resultMessageId :: int
  resultStartTime :: timestamp
  resultEndTime :: timestamp

text \<open>
  \<open>timerMessage\<close> is the outcome of sending the timer message: \<open>None\<close> when the send
  throws, which leaves the session started with no job scheduled, else the id of the
  message.
\<close>

definition startFocusTimer ::
  "int \<Rightarrow> int \<Rightarrow> timestamp \<Rightarrow> int option \<Rightarrow> world \<Rightarrow> (start_error + start_result) \<times> world" where
  "startFocusTimer chatId duration now timerMessage w =
     (if chatId = 0 \<or> duration \<le> 0 then (Inl InvalidTimerParameters, w)
      else
        (let w1 = stopFocusTimer chatId now w;
             startTime = now;
             endTime = now + duration * 60000;
             store2 =
               updateUserSession chatId
                 (\<lambda>s. s\<lparr>isStudying := True, studyStartTime := Some startTime,
                         pauseStartTime := None, totalPausedTime := 0, pausedDuration := 0,
                         plannedDuration := duration\<rparr>)
                 (userStore w1)
         in case timerMessage of
              None \<Rightarrow> (Inl SendFailed, w1\<lparr>userStore := store2\<rparr>)
            | Some mid \<Rightarrow>
                (Inr \<lparr>resultMessageId = mid, resultStartTime = startTime, resultEndTime = endTime\<rparr>,
                 \<lparr>userStore = updateUserSession chatId (\<lambda>s. s\<lparr>messageId := Some mid\<rparr>) store2,
                  timerStore =
                    storeTimer chatId End (EndJob endTime duration)
                      (storeTimer chatId Update (UpdateJob startTime endTime) (timerStore w1))\<rparr>)))"

definition pauseFocusTimer :: "int \<Rightarrow> timestamp \<Rightarrow> world \<Rightarrow> bool \<times> world" where
  "pauseFocusTimer chatId now w =
     (let store0 = initializeUserData chatId (userStore w);
          s = getUserSession chatId store0
      in if \<not> isStudying s \<or> pauseStartTime s \<noteq> None then (False, w\<lparr>userStore := store0\<rparr>)
         else (True,
               w\<lparr>userStore := updateUserSession chatId (\<lambda>s. s\<lparr>pauseStartTime := Some now\<rparr>) store0\<rparr>))"

text \<open>
  The guard of \<open>resumeFocusTimer\<close>, not studying or no pause start, is written as a case
  on the pause start, so that the branch that subtracts it has it at hand; the guard of
  \<open>stopFocusTimer\<close>, studying and a start time, is written in the same way above.
\<close>

definition resumeFocusTimer :: "int \<Rightarrow> timestamp \<Rightarrow> world \<Rightarrow> bool \<times> world" where
  "resumeFocusTimer chatId now w =
     (let store0 = initializeUserData chatId (userStore w);
          s = getUserSession chatId store0
      in case pauseStartTime s of
           None \<Rightarrow> (False, w\<lparr>userStore := store0\<rparr>)
         | Some pauseStart \<Rightarrow>
             if \<not> isStudying s then (False, w\<lparr>userStore := store0\<rparr>)
             else
               (let pauseDuration = now - pauseStart
                in (True,
                    w\<lparr>userStore :=
                        updateUserSession chatId
                          (\<lambda>u. u\<lparr>pauseStartTime := None,
                                  totalPausedTime := totalPausedTime s + pauseDuration,
                                  pausedDuration :=
                                    doubleAdd (pausedDuration s)
                                      (doubleDiv (of_int pauseDuration) 60000)\<rparr>)
                          store0\<rparr>)))"

text \<open>
  The duration that the completion handler commits, before rounding: \<open>duration\<close> is the
  argument that the completion job has captured.
\<close>

definition actualDuration :: "session \<Rightarrow> int \<Rightarrow> real" where
  "actualDuration s duration =
     (if pausedDuration s > 0 then of_int duration - pausedDuration s / 60
      else of_int duration)"

text \<open>
  \<open>notice\<close> is the outcome of sending the completion message: \<open>None\<close> when the send
  throws, else the clock reading after it, from which the break reminder is scheduled.
  Before the send, the handler builds a line of stars with
  \<open>repeat(Math.min(5, Math.ceil(actualDuration / 10)))\<close>, which throws for a negative
  count; the handler catches either exception and schedules no break reminder.
\<close>

definition handleTimerComplete ::
  "int \<Rightarrow> int \<Rightarrow> timestamp \<Rightarrow> timestamp option \<Rightarrow> world \<Rightarrow> world" where
  "handleTimerComplete chatId duration now notice w =
     (let store0 = initializeUserData chatId (userStore w);
          s = getUserSession chatId store0
      in if \<not> isStudying s then w\<lparr>userStore := store0\<rparr>
         else
           (let store1 = addCompletedSession chatId (round (actualDuration s duration)) now store0;
                w2 = stopFocusTimer chatId now (w\<lparr>userStore := store1\<rparr>)
            in if \<lceil>actualDuration s duration / 10\<rceil> < 0 then w2
               else
                 (case notice of
                    None \<Rightarrow> w2
                  | Some sent \<Rightarrow>
                      w2\<lparr>timerStore :=
                           storeTimer chatId Break (BreakJob (sent + 5 * 60000)) (timerStore w2)\<rparr>)))"

text \<open>
  The numbers that \<open>generateTimerMessage\<close> puts into the progress text: the remaining
  time in milliseconds and the progress in percent.
\<close>

record timer_message =
  remaining :: int
  progressPercent :: int

definition generateTimerMessage ::
  "timestamp \<Rightarrow> timestamp \<Rightarrow> int \<Rightarrow> timestamp \<Rightarrow> timer_message" where
  "generateTimerMessage startTime endTime pausedTime now =
     (let adjustedNow = now - pausedTime;
          remainingTime = endTime - adjustedNow;
          totalDuration = endTime - startTime;
          elapsed = now - startTime - pausedTime
      in \<lparr>remaining = max 0 remainingTime,
          progressPercent =
            min 100 (max 0 (floor ((of_int elapsed :: real) / of_int totalDuration * 100)))\<rparr>)"

text \<open>
  The callback of the job that \<open>scheduleTimerUpdates\<close> registers, run every minute with
  the start and end time it has captured. It returns the message it renders, if any.
\<close>

definition timerUpdate ::
  "int \<Rightarrow> timestamp \<Rightarrow> timestamp \<Rightarrow> timestamp \<Rightarrow> world \<Rightarrow> timer_message option \<times> world" where
  "timerUpdate chatId startTime endTime now w =
     (let store0 = initializeUserData chatId (userStore w);
          s = getUserSession chatId store0;
          w0 = w\<lparr>userStore := store0\<rparr>
      in if pauseStartTime s \<noteq> None then (None, w0)
         else if isStudying s \<and> messageId s \<noteq> None \<and> messageId s \<noteq> Some 0
         then (Some (generateTimerMessage startTime endTime (totalPausedTime s) now), w0)
         else (None, w0))"

text \<open>The callback of the break reminder removes its own handle.\<close>

definition breakReminder :: "int \<Rightarrow> world \<Rightarrow> world" where
  "breakReminder chatId w = w\<lparr>timerStore := removeTimer chatId Break (timerStore w)\<rparr>"

text \<open>
  \<open>cleanupTimers\<close> visits every user that has an entry in the timer table, which
  initialises that user's data, and empties the entry of a user who is not studying.
\<close>

definition cleanupTimers :: "world \<Rightarrow> world" where
  "cleanupTimers w =
     \<lparr>userStore =
        (\<lambda>userId. case timerStore w userId of
                     None \<Rightarrow> userStore w userId
                   | Some timers \<Rightarrow> Some (lookupUser userId (userStore w))),
      timerStore =
        (\<lambda>userId. case timerStore w userId of
                     None \<Rightarrow> None
                   | Some timers \<Rightarrow>
                       if \<not> isStudying (getUserSession userId (userStore w)) then Some Map.empty
                       else Some timers)\<rparr>"

section \<open>Runs of the bot\<close>

text \<open>
  What can happen to the store: the commands of the user and the callbacks of the
  scheduler, each with the arguments it is called with. A run is a list of events, each
  with the clock reading at which it happens.
\<close>

datatype event =
  Start int int "int option"
| Pause int
| Resume int
| Stop int
| TimerComplete int int "timestamp option"
| TimerUpdate int timestamp timestamp
| BreakReminder int
| Cleanup

fun step :: "timestamp \<Rightarrow> event \<Rightarrow> world \<Rightarrow> world" where
  "step now (Start chatId duration timerMessage) w =
     snd (startFocusTimer chatId duration now timerMessage w)"
| "step now (Pause chatId) w = snd (pauseFocusTimer chatId now w)"
| "step now (Resume chatId) w = snd (resumeFocusTimer chatId now w)"
| "step now (Stop chatId) w = stopFocusTimer chatId now w"
| "step now (TimerComplete chatId duration notice) w =
     handleTimerComplete chatId duration now notice w"
| "step now (TimerUpdate chatId startTime endTime) w =
     snd (timerUpdate chatId startTime endTime now w)"
| "step now (BreakReminder chatId) w = breakReminder chatId w"
| "step now Cleanup w = cleanupTimers w"

fun run :: "(timestamp \<times> event) list \<Rightarrow> world \<Rightarrow> world" where
  "run [] w = w"
| "run ((now, e) # es) w = run es (step now e w)"

section \<open>The productivity score\<close>

record daily_stat =
  date :: int
  minutes :: int

text \<open>
  The last \<open>days\<close> days up to the day of \<open>now\<close>, oldest first, with the minutes studied
  on each (0 where the table has no entry).
\<close>

definition getDailyStudyStats :: "(int \<rightharpoonup> int) \<Rightarrow> nat \<Rightarrow> timestamp \<Rightarrow> daily_stat list" where
  "getDailyStudyStats dailyData days now =
     map (\<lambda>i. \<lparr>date = dayOf now - int i,
               minutes = (case dailyData (dayOf now - int i) of None \<Rightarrow> 0 | Some m \<Rightarrow> m)\<rparr>)
       (rev [0..<days])"

definition maxDailyTime :: real where "maxDailyTime = 120"
definition maxStreak :: real where "maxStreak = 7"
definition maxSessions :: real where "maxSessions = 30"
definition maxCompletedTasks :: real where "maxCompletedTasks = 50"

definition weeklyAvg :: "daily_stat list \<Rightarrow> real" where
  "weeklyAvg dailyStats = of_int (foldl (\<lambda>sum day. sum + minutes day) 0 dailyStats) / 7"

definition activeScore :: "daily_stat list \<Rightarrow> int" where
  "activeScore dailyStats = min 25 (round ((weeklyAvg dailyStats / maxDailyTime) * 25))"

definition streakScore :: "stats \<Rightarrow> int" where
  "streakScore st = min 25 (round ((of_int (streak st) / maxStreak) * 25))"

definition sessionScore :: "stats \<Rightarrow> int" where
  "sessionScore st = min 25 (round ((of_int (totalSessions st) / maxSessions) * 25))"

definition taskScore :: "stats \<Rightarrow> int" where
  "taskScore st = min 25 (round ((of_int (totalCompletedTasks st) / maxCompletedTasks) * 25))"

definition calculateProductivityScore :: "stats \<Rightarrow> daily_stat list \<Rightarrow> int" where
  "calculateProductivityScore st dailyStats =
     activeScore dailyStats + streakScore st + sessionScore st + taskScore st"

section \<open>Properties of a session\<close>

text \<open>The minutes that \<open>stopFocusTimer\<close> has measured, before rounding.\<close>

definition studyDuration :: "session \<Rightarrow> timestamp \<Rightarrow> timestamp \<Rightarrow> real" where
  "studyDuration s start now = real_of_int (now - start - totalPausedTime s) / 60000"

text \<open>The start of a pause is set exactly in the paused state.\<close>

definition pauseInvariant :: "session \<Rightarrow> bool" where
  "pauseInvariant s = ((pauseStartTime s \<noteq> None) = (sessionState s = Paused))"

section \<open>Reading the store after an operation\<close>

lemma lookupUser_initializeUserData [simp]:
  "lookupUser u (initializeUserData c store) = lookupUser u store"
  by (simp add: lookupUser_def initializeUserData_def split: option.splits)

lemma getUserSession_initializeUserData [simp]:
  "getUserSession u (initializeUserData c store) = getUserSession u store"
  by (simp add: getUserSession_def)

lemma getUserStats_initializeUserData [simp]:
  "getUserStats u (initializeUserData c store) = getUserStats u store"
  by (simp add: getUserStats_def)

lemma getUserSession_updateUserSession [simp]:
  "getUserSession u (updateUserSession c f store) =
     (if u = c then f (getUserSession c store) else getUserSession u store)"
  by (simp add: getUserSession_def updateUserSession_def lookupUser_def Let_def)

lemma getUserStats_updateUserSession [simp]:
  "getUserStats u (updateUserSession c f store) = getUserStats u store"
  by (simp add: getUserStats_def updateUserSession_def lookupUser_def Let_def)

lemma getUserSession_addCompletedSession [simp]:
  "getUserSession u (addCompletedSession c m now store) = getUserSession u store"
  by (simp add: getUserSession_def addCompletedSession_def lookupUser_def Let_def)

lemma getUserStats_addCompletedSession [simp]:
  "getUserStats u (addCompletedSession c m now store) =
     (if u = c then commitStats m now (getUserStats c store) else getUserStats u store)"
  by (simp add: getUserStats_def addCompletedSession_def lookupUser_def Let_def)

lemma getUserSession_initialWorld [simp]:
  "getUserSession u (userStore initialWorld) = defaultSession"
  by (simp add: getUserSession_def lookupUser_def initialWorld_def defaultUserData_def)

lemma getUserStats_initialWorld [simp]:
  "getUserStats u (userStore initialWorld) = defaultStats"
  by (simp add: getUserStats_def lookupUser_def initialWorld_def defaultUserData_def)

lemma timerStore_initialWorld [simp]: "timerStore initialWorld = Map.empty"
  by (simp add: initialWorld_def)

lemma getUserSession_stopFocusTimer:
  "getUserSession u (userStore (stopFocusTimer c now w)) =
     (if u = c then resetSession (getUserSession c (userStore w))
      else getUserSession u (userStore w))"
  by (simp add: stopFocusTimer_def Let_def split: option.splits)

lemma getUserStats_stopFocusTimer:
  "getUserStats u (userStore (stopFocusTimer c now w)) =
     (case studyStartTime (getUserSession c (userStore w)) of
        None \<Rightarrow> getUserStats u (userStore w)
      | Some start \<Rightarrow>
          if u = c \<and> isStudying (getUserSession c (userStore w)) \<and>
             studyDuration (getUserSession c (userStore w)) start now > 1
          then commitStats (round (studyDuration (getUserSession c (userStore w)) start now))
                 now (getUserStats c (userStore w))
          else getUserStats u (userStore w))"
  by (simp add: stopFocusTimer_def studyDuration_def Let_def split: option.splits)

lemma timerStore_stopFocusTimer:
  "timerStore (stopFocusTimer c now w) = removeTimer c End (removeTimer c Update (timerStore w))"
  by (simp add: stopFocusTimer_def Let_def)

lemma getUserSession_startFocusTimer:
  "chatId \<noteq> 0 \<Longrightarrow> 0 < duration \<Longrightarrow>
   getUserSession u (userStore (snd (startFocusTimer chatId duration now timerMessage w))) =
     (if u = chatId
      then (resetSession (getUserSession chatId (userStore w)))
             \<lparr>isStudying := True, studyStartTime := Some now, pauseStartTime := None,
              totalPausedTime := 0, pausedDuration := 0, messageId := timerMessage,
              plannedDuration := duration\<rparr>
      else getUserSession u (userStore w))"
  by (simp add: startFocusTimer_def Let_def getUserSession_stopFocusTimer resetSession_def
      split: option.splits)

lemma getUserStats_startFocusTimer:
  "getUserStats u (userStore (snd (startFocusTimer chatId duration now timerMessage w))) =
     (if chatId = 0 \<or> duration \<le> 0 then getUserStats u (userStore w)
      else getUserStats u (userStore (stopFocusTimer chatId now w)))"
  by (simp add: startFocusTimer_def Let_def split: option.splits)

lemma timerStore_startFocusTimer:
  "chatId \<noteq> 0 \<Longrightarrow> 0 < duration \<Longrightarrow>
   timerStore (snd (startFocusTimer chatId duration now (Some mid) w)) =
     storeTimer chatId End (EndJob (now + duration * 60000) duration)
       (storeTimer chatId Update (UpdateJob now (now + duration * 60000))
          (timerStore (stopFocusTimer chatId now w)))"
  by (simp add: startFocusTimer_def Let_def)

lemma timerStore_startFocusTimer_None:
  "chatId \<noteq> 0 \<Longrightarrow> 0 < duration \<Longrightarrow>
   timerStore (snd (startFocusTimer chatId duration now None w)) =
     timerStore (stopFocusTimer chatId now w)"
  by (simp add: startFocusTimer_def Let_def)

lemma startFocusTimer_invalid:
  "chatId = 0 \<or> duration \<le> 0 \<Longrightarrow>
   startFocusTimer chatId duration now timerMessage w = (Inl InvalidTimerParameters, w)"
  by (simp add: startFocusTimer_def)

lemma fst_pauseFocusTimer:
  "fst (pauseFocusTimer c now w) =
     (isStudying (getUserSession c (userStore w)) \<and> pauseStartTime (getUserSession c (userStore w)) = None)"
  by (auto simp add: pauseFocusTimer_def Let_def)

lemma getUserSession_pauseFocusTimer:
  "getUserSession u (userStore (snd (pauseFocusTimer c now w))) =
     (if u = c \<and> fst (pauseFocusTimer c now w)
      then (getUserSession c (userStore w))\<lparr>pauseStartTime := Some now\<rparr>
      else getUserSession u (userStore w))"
  by (auto simp add: pauseFocusTimer_def Let_def)

lemma getUserStats_pauseFocusTimer:
  "getUserStats u (userStore (snd (pauseFocusTimer c now w))) = getUserStats u (userStore w)"
  by (simp add: pauseFocusTimer_def Let_def)

lemma timerStore_pauseFocusTimer:
  "timerStore (snd (pauseFocusTimer c now w)) = timerStore w"
  by (simp add: pauseFocusTimer_def Let_def)

lemma fst_resumeFocusTimer:
  "fst (resumeFocusTimer c now w) =
     (isStudying (getUserSession c (userStore w)) \<and> pauseStartTime (getUserSession c (userStore w)) \<noteq> None)"
  by (auto simp add: resumeFocusTimer_def Let_def split: option.splits)

lemma getUserSession_resumeFocusTimer:
  "getUserSession u (userStore (snd (resumeFocusTimer c now w))) =
     (case pauseStartTime (getUserSession c (userStore w)) of
        None \<Rightarrow> getUserSession u (userStore w)
      | Some pauseStart \<Rightarrow>
          if u = c \<and> isStudying (getUserSession c (userStore w))
          then (getUserSession c (userStore w))
                 \<lparr>pauseStartTime := None,
                  totalPausedTime := totalPausedTime (getUserSession c (userStore w)) + (now - pauseStart),
                  pausedDuration :=
                    doubleAdd (pausedDuration (getUserSession c (userStore w)))
                      (doubleDiv (real_of_int (now - pauseStart)) 60000)\<rparr>
          else getUserSession u (userStore w))"
  by (simp add: resumeFocusTimer_def Let_def split: option.splits)

lemma getUserStats_resumeFocusTimer:
  "getUserStats u (userStore (snd (resumeFocusTimer c now w))) = getUserStats u (userStore w)"
  by (simp add: resumeFocusTimer_def Let_def split: option.splits)

lemma timerStore_resumeFocusTimer:
  "timerStore (snd (resumeFocusTimer c now w)) = timerStore w"
  by (simp add: resumeFocusTimer_def Let_def split: option.splits)

lemma getUserSession_handleTimerComplete:
  "getUserSession u (userStore (handleTimerComplete c d now notice w)) =
     (if u = c \<and> isStudying (getUserSession c (userStore w))
      then resetSession (getUserSession c (userStore w))
      else getUserSession u (userStore w))"
  by (simp add: handleTimerComplete_def Let_def getUserSession_stopFocusTimer
      split: option.splits)

lemma getUserStats_handleTimerComplete:
  "getUserStats u (userStore (handleTimerComplete c d now notice w)) =
     (if u = c \<and> isStudying (getUserSession c (userStore w)) then
        (let s = getUserSession c (userStore w);
             st1 = commitStats (round (actualDuration s d)) now (getUserStats c (userStore w))
         in case studyStartTime s of
              None \<Rightarrow> st1
            | Some start \<Rightarrow>
                if studyDuration s start now > 1
                then commitStats (round (studyDuration s start now)) now st1
                else st1)
      else getUserStats u (userStore w))"
  by (simp add: handleTimerComplete_def Let_def getUserStats_stopFocusTimer
      split: option.splits)

lemma timerStore_handleTimerComplete:
  "timerStore (handleTimerComplete c d now notice w) =
     (if isStudying (getUserSession c (userStore w)) then
        (let ts = removeTimer c End (removeTimer c Update (timerStore w))
         in if \<lceil>actualDuration (getUserSession c (userStore w)) d / 10\<rceil> < 0 then ts
            else
              (case notice of
                 None \<Rightarrow> ts
               | Some sent \<Rightarrow> storeTimer c Break (BreakJob (sent + 5 * 60000)) ts))
      else timerStore w)"
  by (simp add: handleTimerComplete_def Let_def timerStore_stopFocusTimer
      split: option.splits)

lemmas session_after = getUserSession_startFocusTimer getUserSession_pauseFocusTimer
  getUserSession_resumeFocusTimer getUserSession_stopFocusTimer getUserSession_handleTimerComplete
  fst_pauseFocusTimer fst_resumeFocusTimer

lemmas stats_after = getUserStats_startFocusTimer getUserStats_pauseFocusTimer
  getUserStats_resumeFocusTimer getUserStats_stopFocusTimer getUserStats_handleTimerComplete

lemmas timers_after = timerStore_startFocusTimer timerStore_pauseFocusTimer
  timerStore_resumeFocusTimer timerStore_stopFocusTimer timerStore_handleTimerComplete

lemmas eval_defs = Let_def resetSession_def defaultSession_def defaultStats_def sessionState_def
  actualDuration_def studyDuration_def commitStats_def round_def dayOf_def

text \<open>The doubles of the pauses that the scenarios below make.\<close>

lemma ten_minutes_as_double: "doubleAdd 0 (doubleDiv 600000 60000) = 10"
  by code_simp



section \<open>The duration that the completion handler commits\<close>

text \<open>
  Claim C1. When the completion job fires for a running session, the committed duration is
  the planned duration minus the paused minutes, rounded: a 60-minute session with one pause
  of 10 minutes commits 50.

  The code does otherwise. \<open>resumeFocusTimer\<close> accumulates \<open>pausedDuration\<close> in minutes
  (the pause in milliseconds divided by 60000), and \<open>handleTimerComplete\<close> divides it by 60
  once more before subtracting. In the scenario of the claim (start at 0, pause after 5
  minutes, resume after 15, completion after 60) the session holds 10 paused minutes, the
  handler computes 60 - 10/60 and commits 60, not 50. The session's longest session, 60
  afterwards, is that commit; the total of 110 minutes in 2 sessions comes from the second
  commit, of 50 minutes, that \<open>stopFocusTimer\<close> makes when the handler calls it.
\<close>

theorem completion_commit_divides_paused_minutes_by_60:
  "(let w = run [(0, Start 1 60 (Some 7)), (300000, Pause 1), (900000, Resume 1)] initialWorld;
        s = getUserSession 1 (userStore w);
        w' = handleTimerComplete 1 60 3600000 (Some 3601000) w
    in sessionState s = Running \<and> plannedDuration s = 60 \<and>
       pausedDuration s = 10 \<and> totalPausedTime s = 600000 \<and>
       actualDuration s 60 = 359 / 6 \<and>
       round (actualDuration s 60) = 60 \<and>
       round (actualDuration s 60) \<noteq> plannedDuration s - 10 \<and>
       longestSession (getUserStats 1 (userStore w')) = 60 \<and>
       totalStudyTime (getUserStats 1 (userStore w')) = 110 \<and>
       totalSessions (getUserStats 1 (userStore w')) = 2)"
  by (simp add: session_after stats_after eval_defs ten_minutes_as_double)

section \<open>How often a completion commits\<close>

text \<open>
  Claim C2. Firing the completion job for a running session adds exactly one to
  \<open>totalSessions\<close>, and a second call of the handler for the same session changes nothing.

  The second half holds, the first does not: \<open>handleTimerComplete\<close> commits the session
  with \<open>addCompletedSession\<close> and then calls \<open>stopFocusTimer\<close> to clean up, while the
  session still counts as studying; \<open>stopFocusTimer\<close> measures more than one minute and
  commits the session again. A 25-minute session without a pause, completed on time, counts
  as 2 sessions and 50 minutes. The second call of the handler leaves these numbers alone.
\<close>

theorem completion_commits_session_twice:
  "(let w = run [(0, Start 1 25 (Some 7))] initialWorld;
        w' = handleTimerComplete 1 25 1500000 (Some 1501000) w;
        w'' = handleTimerComplete 1 25 1500000 (Some 1501000) w'
    in sessionState (getUserSession 1 (userStore w)) = Running \<and>
       totalSessions (getUserStats 1 (userStore w)) = 0 \<and>
       totalSessions (getUserStats 1 (userStore w')) = 2 \<and>
       totalStudyTime (getUserStats 1 (userStore w')) = 50 \<and>
       sessionState (getUserSession 1 (userStore w')) = Idle \<and>
       totalSessions (getUserStats 1 (userStore w'')) = 2 \<and>
       totalStudyTime (getUserStats 1 (userStore w'')) = 50)"
  by (simp add: session_after stats_after eval_defs)

section \<open>Stopping a session\<close>

text \<open>
  Claim C3. For a session that is not idle and has its start time set, \<open>stopFocusTimer\<close>
  commits the elapsed minutes (the time since the start less the accumulated pauses, divided
  by 60000 and rounded) exactly when the elapsed value exceeds one minute; otherwise the
  statistics stay as they are. Stopping a new 25-minute session after 30 seconds leaves
  \<open>totalSessions\<close> at 0, stopping a new 30-minute session after 20 minutes yields 1 session
  of 20 minutes.
\<close>

theorem stop_commits_above_one_minute:
  "(sessionState (getUserSession c (userStore w)) \<noteq> Idle \<and>
    studyStartTime (getUserSession c (userStore w)) = Some start \<longrightarrow>
      getUserStats c (userStore (stopFocusTimer c now w)) =
        (if real_of_int (now - start - totalPausedTime (getUserSession c (userStore w))) / 60000 > 1
         then commitStats
                (round (real_of_int (now - start - totalPausedTime (getUserSession c (userStore w))) / 60000))
                now (getUserStats c (userStore w))
         else getUserStats c (userStore w)) \<and>
      totalSessions (getUserStats c (userStore (stopFocusTimer c now w))) =
        totalSessions (getUserStats c (userStore w)) +
        (if real_of_int (now - start - totalPausedTime (getUserSession c (userStore w))) / 60000 > 1
         then 1 else 0)) \<and>
   (c \<noteq> 0 \<longrightarrow>
      totalSessions (getUserStats c (userStore
        (run [(t0, Start c 25 (Some mid)), (t0 + 30000, Stop c)] initialWorld))) = 0) \<and>
   (c \<noteq> 0 \<longrightarrow>
      totalSessions (getUserStats c (userStore
        (run [(t0, Start c 30 (Some mid)), (t0 + 20 * 60000, Stop c)] initialWorld))) = 1 \<and>
      totalStudyTime (getUserStats c (userStore
        (run [(t0, Start c 30 (Some mid)), (t0 + 20 * 60000, Stop c)] initialWorld))) = 20)"
proof (intro conjI impI)
  assume a: "sessionState (getUserSession c (userStore w)) \<noteq> Idle \<and>
    studyStartTime (getUserSession c (userStore w)) = Some start"
  then have st: "isStudying (getUserSession c (userStore w))"
    by (auto simp: sessionState_def split: if_splits)
  from a st show "getUserStats c (userStore (stopFocusTimer c now w)) =
        (if real_of_int (now - start - totalPausedTime (getUserSession c (userStore w))) / 60000 > 1
         then commitStats
                (round (real_of_int (now - start - totalPausedTime (getUserSession c (userStore w))) / 60000))
                now (getUserStats c (userStore w))
         else getUserStats c (userStore w))"
    by (simp add: getUserStats_stopFocusTimer studyDuration_def)
  from a st show "totalSessions (getUserStats c (userStore (stopFocusTimer c now w))) =
        totalSessions (getUserStats c (userStore w)) +
        (if real_of_int (now - start - totalPausedTime (getUserSession c (userStore w))) / 60000 > 1
         then 1 else 0)"
    by (simp add: getUserStats_stopFocusTimer studyDuration_def commitStats_def Let_def)
next
  assume "c \<noteq> 0"
  then show "totalSessions (getUserStats c (userStore
        (run [(t0, Start c 25 (Some mid)), (t0 + 30000, Stop c)] initialWorld))) = 0"
    by (simp add: session_after stats_after eval_defs)
next
  assume c: "c \<noteq> 0"
  then show "totalSessions (getUserStats c (userStore
        (run [(t0, Start c 30 (Some mid)), (t0 + 20 * 60000, Stop c)] initialWorld))) = 1"
    by (simp add: session_after stats_after eval_defs)
  from c show "totalStudyTime (getUserStats c (userStore
        (run [(t0, Start c 30 (Some mid)), (t0 + 20 * 60000, Stop c)] initialWorld))) = 20"
    by (simp add: session_after stats_after eval_defs)
qed

theorem stop_commits_above_one_minute_witness:
  "(let w = run [(0, Start 1 30 (Some 7))] initialWorld
    in sessionState (getUserSession 1 (userStore w)) \<noteq> Idle \<and>
       studyStartTime (getUserSession 1 (userStore w)) = Some 0 \<and>
       (1::int) \<noteq> 0 \<and>
       totalSessions (getUserStats 1 (userStore (stopFocusTimer 1 1200000 w))) = 1 \<and>
       totalSessions (getUserStats 1 (userStore (stopFocusTimer 1 30000 w))) = 0 \<and>
       totalStudyTime (getUserStats 1 (userStore
         (run [(0, Start 1 30 (Some 7)), (0 + 20 * 60000, Stop 1)] initialWorld))) = 20)"
  using stop_commits_above_one_minute
          [of 1 "run [(0, Start 1 30 (Some 7))] initialWorld" 0 1200000 0 7]
        stop_commits_above_one_minute
          [of 1 "run [(0, Start 1 30 (Some 7))] initialWorld" 0 30000 0 7]
  by (simp add: session_after stats_after eval_defs)

section \<open>Failing pause and resume\<close>

text \<open>
  Claim C9. \<open>pauseFocusTimer\<close> fails (returns false) exactly when the session is not
  running, \<open>resumeFocusTimer\<close> fails exactly when the session is not paused, and a failing
  call leaves the session record as it was; it leaves the statistics and the scheduled jobs
  alone as well.
\<close>

theorem pause_resume_failures:
  "(fst (pauseFocusTimer c now w) = False \<longleftrightarrow>
      sessionState (getUserSession c (userStore w)) \<noteq> Running) \<and>
   (fst (resumeFocusTimer c now w) = False \<longleftrightarrow>
      sessionState (getUserSession c (userStore w)) \<noteq> Paused) \<and>
   (\<not> fst (pauseFocusTimer c now w) \<longrightarrow>
      (\<forall>u. getUserSession u (userStore (snd (pauseFocusTimer c now w))) =
           getUserSession u (userStore w)) \<and>
      (\<forall>u. getUserStats u (userStore (snd (pauseFocusTimer c now w))) =
           getUserStats u (userStore w)) \<and>
      timerStore (snd (pauseFocusTimer c now w)) = timerStore w) \<and>
   (\<not> fst (resumeFocusTimer c now w) \<longrightarrow>
      (\<forall>u. getUserSession u (userStore (snd (resumeFocusTimer c now w))) =
           getUserSession u (userStore w)) \<and>
      (\<forall>u. getUserStats u (userStore (snd (resumeFocusTimer c now w))) =
           getUserStats u (userStore w)) \<and>
      timerStore (snd (resumeFocusTimer c now w)) = timerStore w)"
proof (intro conjI impI allI)
  show "fst (pauseFocusTimer c now w) = False \<longleftrightarrow>
      sessionState (getUserSession c (userStore w)) \<noteq> Running"
    by (simp add: fst_pauseFocusTimer sessionState_def)
  show "fst (resumeFocusTimer c now w) = False \<longleftrightarrow>
      sessionState (getUserSession c (userStore w)) \<noteq> Paused"
    by (simp add: fst_resumeFocusTimer sessionState_def)
next
  fix u
  assume "\<not> fst (pauseFocusTimer c now w)"
  then show "getUserSession u (userStore (snd (pauseFocusTimer c now w))) =
           getUserSession u (userStore w)"
    by (simp add: getUserSession_pauseFocusTimer)
next
  fix u
  show "getUserStats u (userStore (snd (pauseFocusTimer c now w))) = getUserStats u (userStore w)"
    by (rule getUserStats_pauseFocusTimer)
next
  show "timerStore (snd (pauseFocusTimer c now w)) = timerStore w"
    by (rule timerStore_pauseFocusTimer)
next
  fix u
  assume "\<not> fst (resumeFocusTimer c now w)"
  then show "getUserSession u (userStore (snd (resumeFocusTimer c now w))) =
           getUserSession u (userStore w)"
    by (auto simp add: getUserSession_resumeFocusTimer fst_resumeFocusTimer split: option.splits)
next
  fix u
  show "getUserStats u (userStore (snd (resumeFocusTimer c now w))) = getUserStats u (userStore w)"
    by (rule getUserStats_resumeFocusTimer)
next
  show "timerStore (snd (resumeFocusTimer c now w)) = timerStore w"
    by (rule timerStore_resumeFocusTimer)
qed

theorem pause_resume_failures_witness:
  "(let w = run [(0, Start 1 25 (Some 7)), (60000, Pause 1)] initialWorld
    in \<not> fst (pauseFocusTimer 1 120000 w) \<and>
       \<not> fst (resumeFocusTimer 1 120000 initialWorld) \<and>
       sessionState (getUserSession 1 (userStore w)) = Paused \<and>
       getUserSession 1 (userStore (snd (pauseFocusTimer 1 120000 w))) =
         getUserSession 1 (userStore w) \<and>
       pauseStartTime (getUserSession 1 (userStore (snd (pauseFocusTimer 1 120000 w)))) = Some 60000 \<and>
       getUserSession 1 (userStore (snd (resumeFocusTimer 1 120000 initialWorld))) = defaultSession)"
  using pause_resume_failures [of 1 120000 "run [(0, Start 1 25 (Some 7)), (60000, Pause 1)] initialWorld"]
        pause_resume_failures [of 1 120000 initialWorld]
  by (simp add: session_after eval_defs)

lemma activeTimer_storeTimer [simp]:
  "activeTimer u ty (storeTimer c ty' j ts) =
     (if u = c \<and> ty = ty' then Some j else activeTimer u ty ts)"
  by (simp add: activeTimer_def storeTimer_def Let_def split: option.splits)

lemma activeTimer_removeTimer [simp]:
  "activeTimer u ty (removeTimer c ty' ts) =
     (if u = c \<and> ty = ty' then None else activeTimer u ty ts)"
  by (auto simp add: activeTimer_def removeTimer_def split: option.splits)

lemma activeTimer_empty [simp]: "activeTimer u ty Map.empty = None"
  by (simp add: activeTimer_def)

section \<open>Pausing does not move the completion job\<close>

text \<open>
  Claim C6. For a running session, \<open>pauseFocusTimer\<close> changes nothing but
  \<open>pauseStartTime\<close>, and with it the state of the session, which becomes paused: the
  statistics, the other users and the table of scheduled jobs stay as they are. The
  completion job that \<open>startFocusTimer\<close> has scheduled for the start time plus the
  duration is still the stored one after a pause and after the resume that follows it,
  whenever they happen; the resume adds the length of the pause to \<open>totalPausedTime\<close>.
\<close>

theorem pause_leaves_completion_job:
  "(sessionState (getUserSession c (userStore w)) = Running \<longrightarrow>
     (let w1 = snd (pauseFocusTimer c t1 w);
          w2 = snd (resumeFocusTimer c t2 w1)
      in fst (pauseFocusTimer c t1 w) \<and>
         getUserSession c (userStore w1) = (getUserSession c (userStore w))\<lparr>pauseStartTime := Some t1\<rparr> \<and>
         sessionState (getUserSession c (userStore w1)) = Paused \<and>
         (\<forall>u. u \<noteq> c \<longrightarrow> getUserSession u (userStore w1) = getUserSession u (userStore w)) \<and>
         (\<forall>u. getUserStats u (userStore w1) = getUserStats u (userStore w)) \<and>
         timerStore w1 = timerStore w \<and>
         fst (resumeFocusTimer c t2 w1) \<and>
         sessionState (getUserSession c (userStore w2)) = Running \<and>
         totalPausedTime (getUserSession c (userStore w2)) =
           totalPausedTime (getUserSession c (userStore w)) + (t2 - t1) \<and>
         timerStore w2 = timerStore w)) \<and>
   (c \<noteq> 0 \<and> 0 < d \<longrightarrow>
      activeTimer c End (timerStore (run [(t0, Start c d (Some mid))] w)) =
        Some (EndJob (t0 + d * 60000) d) \<and>
      activeTimer c End (timerStore (run [(t0, Start c d (Some mid)), (t1, Pause c)] w)) =
        Some (EndJob (t0 + d * 60000) d) \<and>
      activeTimer c End
        (timerStore (run [(t0, Start c d (Some mid)), (t1, Pause c), (t2, Resume c)] w)) =
        Some (EndJob (t0 + d * 60000) d))"
proof (intro conjI impI)
  assume r: "sessionState (getUserSession c (userStore w)) = Running"
  then have s: "isStudying (getUserSession c (userStore w))"
    "pauseStartTime (getUserSession c (userStore w)) = None"
    by (auto simp: sessionState_def split: if_splits)
  show "let w1 = snd (pauseFocusTimer c t1 w);
          w2 = snd (resumeFocusTimer c t2 w1)
      in fst (pauseFocusTimer c t1 w) \<and>
         getUserSession c (userStore w1) = (getUserSession c (userStore w))\<lparr>pauseStartTime := Some t1\<rparr> \<and>
         sessionState (getUserSession c (userStore w1)) = Paused \<and>
         (\<forall>u. u \<noteq> c \<longrightarrow> getUserSession u (userStore w1) = getUserSession u (userStore w)) \<and>
         (\<forall>u. getUserStats u (userStore w1) = getUserStats u (userStore w)) \<and>
         timerStore w1 = timerStore w \<and>
         fst (resumeFocusTimer c t2 w1) \<and>
         sessionState (getUserSession c (userStore w2)) = Running \<and>
         totalPausedTime (getUserSession c (userStore w2)) =
           totalPausedTime (getUserSession c (userStore w)) + (t2 - t1) \<and>
         timerStore w2 = timerStore w"
    using s
    by (simp add: Let_def session_after stats_after timers_after sessionState_def)
next
  assume v: "c \<noteq> 0 \<and> 0 < d"
  then show "activeTimer c End (timerStore (run [(t0, Start c d (Some mid))] w)) =
        Some (EndJob (t0 + d * 60000) d)"
    by (simp add: timers_after)
  from v show "activeTimer c End (timerStore (run [(t0, Start c d (Some mid)), (t1, Pause c)] w)) =
        Some (EndJob (t0 + d * 60000) d)"
    by (simp add: timers_after)
  from v show "activeTimer c End
        (timerStore (run [(t0, Start c d (Some mid)), (t1, Pause c), (t2, Resume c)] w)) =
        Some (EndJob (t0 + d * 60000) d)"
    by (simp add: timers_after)
qed

theorem pause_leaves_completion_job_witness:
  "(let w = run [(0, Start 1 60 (Some 7))] initialWorld;
        w2 = snd (resumeFocusTimer 1 900000 (snd (pauseFocusTimer 1 300000 w)))
    in sessionState (getUserSession 1 (userStore w)) = Running \<and>
       (1::int) \<noteq> 0 \<and> (0::int) < 60 \<and>
       totalPausedTime (getUserSession 1 (userStore w2)) = 600000 \<and>
       timerStore w2 = timerStore w \<and>
       activeTimer 1 End (timerStore w2) = Some (EndJob 3600000 60))"
  using pause_leaves_completion_job
          [of 1 "run [(0, Start 1 60 (Some 7))] initialWorld" 300000 900000 60 0 7]
  by (simp add: session_after timers_after eval_defs)

section \<open>The start of a pause and the paused state\<close>

lemma getUserSession_timerUpdate:
  "getUserSession u (userStore (snd (timerUpdate c startTime endTime now w))) =
     getUserSession u (userStore w)"
  by (simp add: timerUpdate_def Let_def)

lemma getUserSession_breakReminder:
  "getUserSession u (userStore (breakReminder c w)) = getUserSession u (userStore w)"
  by (simp add: breakReminder_def)

lemma lookupUser_cleanupTimers:
  "lookupUser u (userStore (cleanupTimers w)) = lookupUser u (userStore w)"
  by (simp add: cleanupTimers_def lookupUser_def split: option.splits)

lemma getUserSession_cleanupTimers:
  "getUserSession u (userStore (cleanupTimers w)) = getUserSession u (userStore w)"
  by (simp add: getUserSession_def lookupUser_cleanupTimers)

text \<open>
  The session of a user after any event is the session before, or the result of one of five
  updates.
\<close>

lemma getUserSession_step_cases:
  "getUserSession u (userStore (step now e w)) = getUserSession u (userStore w) \<or>
   (\<exists>d m. getUserSession u (userStore (step now e w)) =
      (resetSession (getUserSession u (userStore w)))
        \<lparr>isStudying := True, studyStartTime := Some now, pauseStartTime := None,
         totalPausedTime := 0, pausedDuration := 0, messageId := m, plannedDuration := d\<rparr>) \<or>
   getUserSession u (userStore (step now e w)) = resetSession (getUserSession u (userStore w)) \<or>
   (sessionState (getUserSession u (userStore w)) = Running \<and>
    getUserSession u (userStore (step now e w)) =
      (getUserSession u (userStore w))\<lparr>pauseStartTime := Some now\<rparr>) \<or>
   (\<exists>ps. sessionState (getUserSession u (userStore w)) = Paused \<and>
      pauseStartTime (getUserSession u (userStore w)) = Some ps \<and>
      getUserSession u (userStore (step now e w)) =
        (getUserSession u (userStore w))
          \<lparr>pauseStartTime := None,
           totalPausedTime := totalPausedTime (getUserSession u (userStore w)) + (now - ps),
           pausedDuration :=
             doubleAdd (pausedDuration (getUserSession u (userStore w)))
               (doubleDiv (real_of_int (now - ps)) 60000)\<rparr>)"
proof (cases e)
  case (Start c d m)
  show ?thesis
  proof (cases "c = 0 \<or> d \<le> 0")
    case True
    then show ?thesis using Start by (simp add: startFocusTimer_invalid)
  next
    case False
    then show ?thesis using Start by (auto simp add: getUserSession_startFocusTimer)
  qed
next
  case (Pause c)
  then show ?thesis
    by (auto simp add: getUserSession_pauseFocusTimer fst_pauseFocusTimer sessionState_def)
next
  case (Resume c)
  then show ?thesis
    by (auto simp add: getUserSession_resumeFocusTimer sessionState_def split: option.splits)
next
  case (Stop c)
  then show ?thesis by (simp add: getUserSession_stopFocusTimer)
next
  case (TimerComplete c d notice)
  then show ?thesis by (simp add: getUserSession_handleTimerComplete)
next
  case (TimerUpdate c st en)
  then show ?thesis by (simp add: getUserSession_timerUpdate)
next
  case (BreakReminder c)
  then show ?thesis by (simp add: getUserSession_breakReminder)
next
  case Cleanup
  then show ?thesis by (simp add: getUserSession_cleanupTimers)
qed

lemma step_pauseInvariant:
  assumes "pauseInvariant (getUserSession u (userStore w))"
  shows "pauseInvariant (getUserSession u (userStore (step now e w)))"
  using getUserSession_step_cases [of u now e w] assms
  by (auto simp add: pauseInvariant_def sessionState_def resetSession_def split: if_splits)

lemma run_pauseInvariant:
  "(\<forall>u. pauseInvariant (getUserSession u (userStore w))) \<Longrightarrow>
   pauseInvariant (getUserSession u (userStore (run evs w)))"
proof (induction evs arbitrary: w)
  case Nil
  then show ?case by simp
next
  case (Cons a evs)
  obtain now e where a: "a = (now, e)" by (cases a)
  have "\<forall>u. pauseInvariant (getUserSession u (userStore (step now e w)))"
    using Cons.prems by (simp add: step_pauseInvariant)
  then show ?case using Cons.IH a by simp
qed

text \<open>
  Claim C5. In every state that the bot can reach, whatever the commands and callbacks and
  their order, \<open>pauseStartTime\<close> of a session is set exactly when the session is paused;
  and every single operation (start, pause, resume, stop, completion, and the tick, the
  break reminder and the cleanup as well) keeps this property of a session that has it.
\<close>

theorem pause_start_time_set_iff_paused:
  "((pauseStartTime (getUserSession u (userStore (run evs initialWorld))) \<noteq> None) =
      (sessionState (getUserSession u (userStore (run evs initialWorld))) = Paused)) \<and>
   (((pauseStartTime (getUserSession u (userStore w)) \<noteq> None) =
       (sessionState (getUserSession u (userStore w)) = Paused)) \<longrightarrow>
    ((pauseStartTime (getUserSession u (userStore (step now e w))) \<noteq> None) =
       (sessionState (getUserSession u (userStore (step now e w))) = Paused)))"
proof (intro conjI impI)
  have "\<forall>u. pauseInvariant (getUserSession u (userStore initialWorld))"
    by (simp add: pauseInvariant_def sessionState_def defaultSession_def)
  then have "pauseInvariant (getUserSession u (userStore (run evs initialWorld)))"
    by (rule run_pauseInvariant)
  then show "(pauseStartTime (getUserSession u (userStore (run evs initialWorld))) \<noteq> None) =
      (sessionState (getUserSession u (userStore (run evs initialWorld))) = Paused)"
    by (simp add: pauseInvariant_def)
next
  assume "(pauseStartTime (getUserSession u (userStore w)) \<noteq> None) =
       (sessionState (getUserSession u (userStore w)) = Paused)"
  then have "pauseInvariant (getUserSession u (userStore w))"
    by (simp add: pauseInvariant_def)
  then have "pauseInvariant (getUserSession u (userStore (step now e w)))"
    by (rule step_pauseInvariant)
  then show "(pauseStartTime (getUserSession u (userStore (step now e w))) \<noteq> None) =
       (sessionState (getUserSession u (userStore (step now e w))) = Paused)"
    by (simp add: pauseInvariant_def)
qed

theorem pause_start_time_set_iff_paused_witness:
  "(let w = run [(0, Start 1 25 (Some 7))] initialWorld;
        w' = run [(0, Start 1 25 (Some 7)), (60000, Pause 1)] initialWorld
    in ((pauseStartTime (getUserSession 1 (userStore w)) \<noteq> None) =
          (sessionState (getUserSession 1 (userStore w)) = Paused)) \<and>
       sessionState (getUserSession 1 (userStore w)) = Running \<and>
       pauseStartTime (getUserSession 1 (userStore (step 60000 (Pause 1) w))) = Some 60000 \<and>
       sessionState (getUserSession 1 (userStore (step 60000 (Pause 1) w))) = Paused \<and>
       ((pauseStartTime (getUserSession 1 (userStore w')) \<noteq> None) =
          (sessionState (getUserSession 1 (userStore w')) = Paused)))"
  using pause_start_time_set_iff_paused
          [of 1 "[(0, Start 1 25 (Some 7)), (60000, Pause 1)]"
              "run [(0, Start 1 25 (Some 7))] initialWorld" 60000 "Pause 1"]
  by (simp add: session_after eval_defs)

section \<open>The two accumulators of paused time\<close>




section \<open>The streak\<close>

text \<open>
  Claim C7. Each commit sets the streak by comparing its day with the day of the previous
  \<open>lastStudyDate\<close>: the first commit ever sets it to 1, a commit on the next day adds
  one, a commit on the same day leaves it, any other commit resets it to 1; and the commit
  becomes the new \<open>lastStudyDate\<close>. Starting from a new user, commits on three days in a
  row give a streak of 3, a further commit on the third day leaves it at 3, and a commit two
  days after the third day resets it to 1. (Days are days in UTC here.)
\<close>

theorem streak_follows_day_difference:
  "(lastStudyDate st = None \<longrightarrow> streak (commitStats m now st) = 1) \<and>
   (lastStudyDate st = Some prev \<and> dayOf now - dayOf prev = 1 \<longrightarrow>
      streak (commitStats m now st) = streak st + 1) \<and>
   (lastStudyDate st = Some prev \<and> dayOf now = dayOf prev \<longrightarrow>
      streak (commitStats m now st) = streak st) \<and>
   (lastStudyDate st = Some prev \<and> dayOf now - dayOf prev \<noteq> 1 \<and> dayOf now \<noteq> dayOf prev \<longrightarrow>
      streak (commitStats m now st) = 1) \<and>
   lastStudyDate (commitStats m now st) = Some now \<and>
   getUserStats c (addCompletedSession c m now store) = commitStats m now (getUserStats c store) \<and>
   (dayOf t2 = dayOf t1 + 1 \<and> dayOf t3 = dayOf t2 + 1 \<and> dayOf t4 = dayOf t3 \<and>
    dayOf t5 = dayOf t3 + 2 \<longrightarrow>
      streak (getUserStats c (addCompletedSession c m1 t1 (userStore initialWorld))) = 1 \<and>
      streak (getUserStats c
        (addCompletedSession c m3 t3 (addCompletedSession c m2 t2
          (addCompletedSession c m1 t1 (userStore initialWorld))))) = 3 \<and>
      streak (getUserStats c
        (addCompletedSession c m4 t4 (addCompletedSession c m3 t3 (addCompletedSession c m2 t2
          (addCompletedSession c m1 t1 (userStore initialWorld)))))) = 3 \<and>
      streak (getUserStats c
        (addCompletedSession c m5 t5 (addCompletedSession c m3 t3 (addCompletedSession c m2 t2
          (addCompletedSession c m1 t1 (userStore initialWorld)))))) = 1)"
  by (simp add: commitStats_def Let_def defaultStats_def)

theorem streak_follows_day_difference_witness:
  "dayOf 86400000 = 1 \<and> dayOf 172800000 = 2 \<and> dayOf 259200000 = 3 \<and> dayOf 300000000 = 3 \<and>
   dayOf 432000000 = 5 \<and>
   lastStudyDate defaultStats = None \<and>
   streak (commitStats 25 86400000 defaultStats) = 1 \<and>
   lastStudyDate (commitStats 25 86400000 defaultStats) = Some 86400000 \<and>
   streak (commitStats 25 172800000 (commitStats 25 86400000 defaultStats)) = 2 \<and>
   streak (getUserStats 1
     (addCompletedSession 1 25 259200000 (addCompletedSession 1 25 172800000
       (addCompletedSession 1 25 86400000 (userStore initialWorld))))) = 3 \<and>
   streak (getUserStats 1
     (addCompletedSession 1 25 300000000 (addCompletedSession 1 25 259200000
       (addCompletedSession 1 25 172800000
         (addCompletedSession 1 25 86400000 (userStore initialWorld)))))) = 3 \<and>
   streak (getUserStats 1
     (addCompletedSession 1 25 432000000 (addCompletedSession 1 25 259200000
       (addCompletedSession 1 25 172800000
         (addCompletedSession 1 25 86400000 (userStore initialWorld)))))) = 1"
  using streak_follows_day_difference
          [of defaultStats 25 86400000 0 1 "userStore initialWorld"
              172800000 86400000 259200000 300000000 432000000 25 25 25 25 25]
        streak_follows_day_difference
          [of "commitStats 25 86400000 defaultStats" 25 172800000 86400000]
  by (simp add: dayOf_def defaultStats_def commitStats_def Let_def)

section \<open>Bounds of the productivity score\<close>

lemma foldl_minutes_nonneg:
  "0 \<le> acc \<Longrightarrow> (\<forall>d\<in>set ds. 0 \<le> minutes d) \<Longrightarrow>
   0 \<le> foldl (\<lambda>sum day. sum + minutes day) acc ds"
  by (induction ds arbitrary: acc) auto

lemma capped_round_bounds:
  "0 \<le> x \<Longrightarrow> 0 \<le> min 25 (round (x :: real)) \<and> min 25 (round x) \<le> 25"
  using round_mono [of 0 x] by simp

lemma getDailyStudyStats_nonneg:
  "(\<forall>day m. dailyData day = Some m \<longrightarrow> 0 \<le> m) \<Longrightarrow>
   \<forall>d\<in>set (getDailyStudyStats dailyData days now). 0 \<le> minutes d"
  by (auto simp add: getDailyStudyStats_def split: option.splits)

lemma activeScore_bounds:
  assumes "\<forall>d\<in>set dailyStats. 0 \<le> minutes d"
  shows "0 \<le> activeScore dailyStats \<and> activeScore dailyStats \<le> 25"
proof -
  have "0 \<le> foldl (\<lambda>sum day. sum + minutes day) 0 dailyStats"
    using assms by (simp add: foldl_minutes_nonneg)
  then have "0 \<le> weeklyAvg dailyStats / maxDailyTime * 25"
    by (simp add: weeklyAvg_def maxDailyTime_def)
  then show ?thesis
    unfolding activeScore_def by (rule capped_round_bounds)
qed

lemma streakScore_bounds:
  assumes "0 \<le> streak st"
  shows "0 \<le> streakScore st \<and> streakScore st \<le> 25"
proof -
  have "0 \<le> real_of_int (streak st) / maxStreak * 25"
    using assms by (simp add: maxStreak_def)
  then show ?thesis
    unfolding streakScore_def by (rule capped_round_bounds)
qed

lemma sessionScore_bounds:
  assumes "0 \<le> totalSessions st"
  shows "0 \<le> sessionScore st \<and> sessionScore st \<le> 25"
proof -
  have "0 \<le> real_of_int (totalSessions st) / maxSessions * 25"
    using assms by (simp add: maxSessions_def)
  then show ?thesis
    unfolding sessionScore_def by (rule capped_round_bounds)
qed

lemma taskScore_bounds:
  assumes "0 \<le> totalCompletedTasks st"
  shows "0 \<le> taskScore st \<and> taskScore st \<le> 25"
proof -
  have "0 \<le> real_of_int (totalCompletedTasks st) / maxCompletedTasks * 25"
    using assms by (simp add: maxCompletedTasks_def)
  then show ?thesis
    unfolding taskScore_def by (rule capped_round_bounds)
qed

text \<open>
  Claim C8. For statistics with non-negative counters and non-negative daily minutes, the
  productivity score lies between 0 and 100 and each of its four components between 0 and
  25; the score is the sum of the components, and each component is the smaller of 25 and
  the rounded value of its quantity divided by its cap and multiplied by 25, with the caps
  120 (minutes a day, on the average of the week: the sum of the daily minutes divided by
  7), 7 (streak), 30 (sessions) and 50 (completed tasks). The bounds hold in particular for
  the daily statistics that \<open>getDailyStudyStats\<close> reads from the table of a user.
\<close>

theorem productivity_score_bounds:
  "(0 \<le> streak st \<and> 0 \<le> totalSessions st \<and> 0 \<le> totalCompletedTasks st \<and>
    (\<forall>d\<in>set dailyStats. 0 \<le> minutes d) \<longrightarrow>
     0 \<le> calculateProductivityScore st dailyStats \<and>
     calculateProductivityScore st dailyStats \<le> 100 \<and>
     0 \<le> activeScore dailyStats \<and> activeScore dailyStats \<le> 25 \<and>
     0 \<le> streakScore st \<and> streakScore st \<le> 25 \<and>
     0 \<le> sessionScore st \<and> sessionScore st \<le> 25 \<and>
     0 \<le> taskScore st \<and> taskScore st \<le> 25) \<and>
   calculateProductivityScore st dailyStats =
     activeScore dailyStats + streakScore st + sessionScore st + taskScore st \<and>
   activeScore dailyStats =
     min 25 (round (real_of_int (foldl (\<lambda>sum day. sum + minutes day) 0 dailyStats) / 7 / 120 * 25)) \<and>
   streakScore st = min 25 (round (real_of_int (streak st) / 7 * 25)) \<and>
   sessionScore st = min 25 (round (real_of_int (totalSessions st) / 30 * 25)) \<and>
   taskScore st = min 25 (round (real_of_int (totalCompletedTasks st) / 50 * 25)) \<and>
   (0 \<le> streak st \<and> 0 \<le> totalSessions st \<and> 0 \<le> totalCompletedTasks st \<and>
    (\<forall>day m. dailyStudyTime st day = Some m \<longrightarrow> 0 \<le> m) \<longrightarrow>
     0 \<le> calculateProductivityScore st (getDailyStudyStats (dailyStudyTime st) 7 now) \<and>
     calculateProductivityScore st (getDailyStudyStats (dailyStudyTime st) 7 now) \<le> 100)"
proof -
  have sum: "calculateProductivityScore st ds =
      activeScore ds + streakScore st + sessionScore st + taskScore st" for ds
    by (simp only: calculateProductivityScore_def)
  have bounds: "0 \<le> calculateProductivityScore st ds \<and> calculateProductivityScore st ds \<le> 100"
    if "0 \<le> streak st" "0 \<le> totalSessions st" "0 \<le> totalCompletedTasks st"
       "\<forall>d\<in>set ds. 0 \<le> minutes d" for ds
    using activeScore_bounds [OF that(4)] streakScore_bounds [OF that(1)]
      sessionScore_bounds [OF that(2)] taskScore_bounds [OF that(3)]
    unfolding sum by linarith
  have first: "0 \<le> streak st \<and> 0 \<le> totalSessions st \<and> 0 \<le> totalCompletedTasks st \<and>
    (\<forall>d\<in>set dailyStats. 0 \<le> minutes d) \<longrightarrow>
     0 \<le> calculateProductivityScore st dailyStats \<and>
     calculateProductivityScore st dailyStats \<le> 100 \<and>
     0 \<le> activeScore dailyStats \<and> activeScore dailyStats \<le> 25 \<and>
     0 \<le> streakScore st \<and> streakScore st \<le> 25 \<and>
     0 \<le> sessionScore st \<and> sessionScore st \<le> 25 \<and>
     0 \<le> taskScore st \<and> taskScore st \<le> 25"
    using bounds [of dailyStats] activeScore_bounds [of dailyStats] streakScore_bounds [of st]
      sessionScore_bounds [of st] taskScore_bounds [of st]
    by blast
  have defs: "activeScore dailyStats =
       min 25 (round (real_of_int (foldl (\<lambda>sum day. sum + minutes day) 0 dailyStats) / 7 / 120 * 25))"
    "streakScore st = min 25 (round (real_of_int (streak st) / 7 * 25))"
    "sessionScore st = min 25 (round (real_of_int (totalSessions st) / 30 * 25))"
    "taskScore st = min 25 (round (real_of_int (totalCompletedTasks st) / 50 * 25))"
    by (simp_all only: activeScore_def weeklyAvg_def maxDailyTime_def streakScore_def maxStreak_def
        sessionScore_def maxSessions_def taskScore_def maxCompletedTasks_def)
  have last: "0 \<le> streak st \<and> 0 \<le> totalSessions st \<and> 0 \<le> totalCompletedTasks st \<and>
    (\<forall>day m. dailyStudyTime st day = Some m \<longrightarrow> 0 \<le> m) \<longrightarrow>
     0 \<le> calculateProductivityScore st (getDailyStudyStats (dailyStudyTime st) 7 now) \<and>
     calculateProductivityScore st (getDailyStudyStats (dailyStudyTime st) 7 now) \<le> 100"
    using bounds [of "getDailyStudyStats (dailyStudyTime st) 7 now"]
      getDailyStudyStats_nonneg [of "dailyStudyTime st" 7 now]
    by blast
  from first sum [of dailyStats] defs last show ?thesis
    by blast
qed

theorem productivity_score_bounds_witness:
  "0 \<le> streak (defaultStats\<lparr>totalSessions := 10, totalCompletedTasks := 5, streak := 3\<rparr>) \<and>
   0 \<le> totalSessions (defaultStats\<lparr>totalSessions := 10, totalCompletedTasks := 5, streak := 3\<rparr>) \<and>
   0 \<le> totalCompletedTasks (defaultStats\<lparr>totalSessions := 10, totalCompletedTasks := 5, streak := 3\<rparr>) \<and>
   list_all (\<lambda>d. 0 \<le> minutes d)
     [\<lparr>date = 1, minutes = 60\<rparr>, \<lparr>date = 2, minutes = 60\<rparr>, \<lparr>date = 3, minutes = 60\<rparr>,
      \<lparr>date = 4, minutes = 60\<rparr>, \<lparr>date = 5, minutes = 60\<rparr>, \<lparr>date = 6, minutes = 60\<rparr>,
      \<lparr>date = 7, minutes = 60\<rparr>] \<and>
   calculateProductivityScore
     (defaultStats\<lparr>totalSessions := 10, totalCompletedTasks := 5, streak := 3\<rparr>)
     [\<lparr>date = 1, minutes = 60\<rparr>, \<lparr>date = 2, minutes = 60\<rparr>, \<lparr>date = 3, minutes = 60\<rparr>,
      \<lparr>date = 4, minutes = 60\<rparr>, \<lparr>date = 5, minutes = 60\<rparr>, \<lparr>date = 6, minutes = 60\<rparr>,
      \<lparr>date = 7, minutes = 60\<rparr>] = 35 \<and>
   0 \<le> calculateProductivityScore
     (defaultStats\<lparr>totalSessions := 10, totalCompletedTasks := 5, streak := 3\<rparr>)
     (getDailyStudyStats
        (dailyStudyTime (defaultStats\<lparr>totalSessions := 10, totalCompletedTasks := 5, streak := 3\<rparr>))
        7 604800000)"
  using productivity_score_bounds
          [of "defaultStats\<lparr>totalSessions := 10, totalCompletedTasks := 5, streak := 3\<rparr>"
              "[\<lparr>date = 1, minutes = 60\<rparr>, \<lparr>date = 2, minutes = 60\<rparr>, \<lparr>date = 3, minutes = 60\<rparr>,
                \<lparr>date = 4, minutes = 60\<rparr>, \<lparr>date = 5, minutes = 60\<rparr>, \<lparr>date = 6, minutes = 60\<rparr>,
                \<lparr>date = 7, minutes = 60\<rparr>]" 604800000]
  by (simp add: defaultStats_def round_def)

section \<open>Callbacks of a superseded session\<close>

lemma lookupUser_handleTimerComplete_idle:
  "\<not> isStudying (getUserSession c (userStore w)) \<Longrightarrow>
   lookupUser u (userStore (handleTimerComplete c d now notice w)) = lookupUser u (userStore w)"
  by (simp add: handleTimerComplete_def Let_def)

lemma lookupUser_timerUpdate:
  "lookupUser u (userStore (snd (timerUpdate c startTime endTime now w))) = lookupUser u (userStore w)"
  by (simp add: timerUpdate_def Let_def)

lemma timerStore_timerUpdate:
  "timerStore (snd (timerUpdate c startTime endTime now w)) = timerStore w"
  by (simp add: timerUpdate_def Let_def)

lemma totalSessions_commitStats: "totalSessions (commitStats m now st) = totalSessions st + 1"
  by (simp add: commitStats_def Let_def)

text \<open>
  Claim C4. Every start increments a generation counter of the session, and a tick or
  completion callback whose generation tag is not the current one is dropped without a
  commit or a change of state, even when the cancellation of the old jobs has failed.

  The session record has no generation counter and the callbacks carry none: a completion
  callback holds the chat and the duration of the start that scheduled it, and
  \<open>handleTimerComplete\<close> checks \<open>isStudying\<close> only. So the callback of a superseded
  start is not dropped while another session runs. Below, a 25-minute session starts at 0
  and a 30-minute session replaces it after one minute, with its own completion job at
  1860000; the completion callback of the first start, firing at 1500000, finds a session
  studying, commits 25 minutes for it and, through \<open>stopFocusTimer\<close>, 24 more, and ends
  the second session.
\<close>

theorem stale_completion_callback_commits:
  "sessionState (getUserSession 1 (userStore
     (run [(0, Start 1 25 (Some 7)), (60000, Start 1 30 (Some 8))] initialWorld))) = Running \<and>
   plannedDuration (getUserSession 1 (userStore
     (run [(0, Start 1 25 (Some 7)), (60000, Start 1 30 (Some 8))] initialWorld))) = 30 \<and>
   activeTimer 1 End (timerStore
     (run [(0, Start 1 25 (Some 7)), (60000, Start 1 30 (Some 8))] initialWorld)) =
     Some (EndJob 1860000 30) \<and>
   totalSessions (getUserStats 1 (userStore
     (run [(0, Start 1 25 (Some 7)), (60000, Start 1 30 (Some 8))] initialWorld))) = 0 \<and>
   totalSessions (getUserStats 1 (userStore
     (run [(0, Start 1 25 (Some 7)), (60000, Start 1 30 (Some 8)),
           (1500000, TimerComplete 1 25 (Some 1501000))] initialWorld))) = 2 \<and>
   totalStudyTime (getUserStats 1 (userStore
     (run [(0, Start 1 25 (Some 7)), (60000, Start 1 30 (Some 8)),
           (1500000, TimerComplete 1 25 (Some 1501000))] initialWorld))) = 49 \<and>
   sessionState (getUserSession 1 (userStore
     (run [(0, Start 1 25 (Some 7)), (60000, Start 1 30 (Some 8)),
           (1500000, TimerComplete 1 25 (Some 1501000))] initialWorld))) = Idle \<and>
   activeTimer 1 End (timerStore
     (run [(0, Start 1 25 (Some 7)), (60000, Start 1 30 (Some 8)),
           (1500000, TimerComplete 1 25 (Some 1501000))] initialWorld)) = None"
  by (simp add: session_after stats_after timers_after eval_defs)

text \<open>
  Claim C4, as the code has it. A completion callback is dropped, with no commit and no
  change of any session, of the statistics or of the stored jobs, when the session is not
  studying at the time it fires; when a session is studying it commits at least once and
  leaves that session idle, whichever start has scheduled it and whatever duration it
  holds. A tick changes neither a session nor the statistics nor the stored jobs.

  A start with valid arguments, run without another operation in between, first runs
  \<open>stopFocusTimer\<close> on the session it finds: the statistics after the start are those
  after that stop, and the stop leaves no tick and no completion job stored. The start
  leaves the session running. When the timer message has been sent, it stores the tick and
  the completion job of the new session on top of what the stop has left; when that send
  fails, it stores nothing, and the running session has no tick and no completion job.
\<close>

theorem completion_guard_is_studying:
  "(\<not> isStudying (getUserSession c (userStore w)) \<longrightarrow>
      (\<forall>u. lookupUser u (userStore (handleTimerComplete c d now notice w)) =
           lookupUser u (userStore w)) \<and>
      timerStore (handleTimerComplete c d now notice w) = timerStore w) \<and>
   (isStudying (getUserSession c (userStore w)) \<longrightarrow>
      totalSessions (getUserStats c (userStore w)) + 1 \<le>
        totalSessions (getUserStats c (userStore (handleTimerComplete c d now notice w))) \<and>
      sessionState (getUserSession c (userStore (handleTimerComplete c d now notice w))) = Idle) \<and>
   (\<forall>u. lookupUser u (userStore (snd (timerUpdate c startTime endTime now w))) =
        lookupUser u (userStore w)) \<and>
   timerStore (snd (timerUpdate c startTime endTime now w)) = timerStore w \<and>
   activeTimer c Update (timerStore (stopFocusTimer c now w)) = None \<and>
   activeTimer c End (timerStore (stopFocusTimer c now w)) = None \<and>
   (c \<noteq> 0 \<and> 0 < d \<longrightarrow>
      sessionState (getUserSession c (userStore (snd (startFocusTimer c d now timerMessage w)))) =
        Running \<and>
      (\<forall>u. getUserStats u (userStore (snd (startFocusTimer c d now timerMessage w))) =
           getUserStats u (userStore (stopFocusTimer c now w))) \<and>
      timerStore (snd (startFocusTimer c d now (Some mid) w)) =
        storeTimer c End (EndJob (now + d * 60000) d)
          (storeTimer c Update (UpdateJob now (now + d * 60000))
             (timerStore (stopFocusTimer c now w))) \<and>
      activeTimer c Update (timerStore (snd (startFocusTimer c d now (Some mid) w))) =
        Some (UpdateJob now (now + d * 60000)) \<and>
      activeTimer c End (timerStore (snd (startFocusTimer c d now (Some mid) w))) =
        Some (EndJob (now + d * 60000) d) \<and>
      timerStore (snd (startFocusTimer c d now None w)) = timerStore (stopFocusTimer c now w) \<and>
      activeTimer c Update (timerStore (snd (startFocusTimer c d now None w))) = None \<and>
      activeTimer c End (timerStore (snd (startFocusTimer c d now None w))) = None)"
proof (intro conjI impI allI)
  fix u
  assume "\<not> isStudying (getUserSession c (userStore w))"
  then show "lookupUser u (userStore (handleTimerComplete c d now notice w)) =
           lookupUser u (userStore w)"
    by (rule lookupUser_handleTimerComplete_idle)
next
  assume "\<not> isStudying (getUserSession c (userStore w))"
  then show "timerStore (handleTimerComplete c d now notice w) = timerStore w"
    by (simp add: timerStore_handleTimerComplete)
next
  assume s: "isStudying (getUserSession c (userStore w))"
  then show "totalSessions (getUserStats c (userStore w)) + 1 \<le>
        totalSessions (getUserStats c (userStore (handleTimerComplete c d now notice w)))"
    by (simp add: getUserStats_handleTimerComplete Let_def totalSessions_commitStats
        split: option.splits)
  from s show "sessionState (getUserSession c (userStore (handleTimerComplete c d now notice w))) = Idle"
    by (simp add: getUserSession_handleTimerComplete resetSession_def sessionState_def)
next
  fix u
  show "lookupUser u (userStore (snd (timerUpdate c startTime endTime now w))) =
        lookupUser u (userStore w)"
    by (rule lookupUser_timerUpdate)
next
  show "timerStore (snd (timerUpdate c startTime endTime now w)) = timerStore w"
    by (rule timerStore_timerUpdate)
  show "activeTimer c Update (timerStore (stopFocusTimer c now w)) = None"
    by (simp add: timerStore_stopFocusTimer)
  show "activeTimer c End (timerStore (stopFocusTimer c now w)) = None"
    by (simp add: timerStore_stopFocusTimer)
next
  assume v: "c \<noteq> 0 \<and> 0 < d"
  then show "sessionState (getUserSession c (userStore (snd (startFocusTimer c d now timerMessage w)))) =
        Running"
    by (simp add: getUserSession_startFocusTimer sessionState_def)
  from v show "timerStore (snd (startFocusTimer c d now (Some mid) w)) =
        storeTimer c End (EndJob (now + d * 60000) d)
          (storeTimer c Update (UpdateJob now (now + d * 60000))
             (timerStore (stopFocusTimer c now w)))"
    by (simp add: timerStore_startFocusTimer)
  from v show "activeTimer c Update (timerStore (snd (startFocusTimer c d now (Some mid) w))) =
        Some (UpdateJob now (now + d * 60000))"
    by (simp add: timerStore_startFocusTimer)
  from v show "activeTimer c End (timerStore (snd (startFocusTimer c d now (Some mid) w))) =
        Some (EndJob (now + d * 60000) d)"
    by (simp add: timerStore_startFocusTimer)
  from v show "timerStore (snd (startFocusTimer c d now None w)) =
        timerStore (stopFocusTimer c now w)"
    by (simp add: timerStore_startFocusTimer_None)
  from v show "activeTimer c Update (timerStore (snd (startFocusTimer c d now None w))) = None"
    by (simp add: timerStore_startFocusTimer_None timerStore_stopFocusTimer)
  from v show "activeTimer c End (timerStore (snd (startFocusTimer c d now None w))) = None"
    by (simp add: timerStore_startFocusTimer_None timerStore_stopFocusTimer)
next
  fix u
  assume "c \<noteq> 0 \<and> 0 < d"
  then show "getUserStats u (userStore (snd (startFocusTimer c d now timerMessage w))) =
           getUserStats u (userStore (stopFocusTimer c now w))"
    by (simp add: getUserStats_startFocusTimer)
qed

theorem completion_guard_is_studying_witness:
  "\<not> isStudying (getUserSession 1 (userStore
      (run [(0, Start 1 25 (Some 7)), (60000, Stop 1)] initialWorld))) \<and>
   isStudying (getUserSession 1 (userStore (run [(0, Start 1 25 (Some 7))] initialWorld))) \<and>
   (1::int) \<noteq> 0 \<and> (0::int) < 25 \<and>
   getUserStats 1 (userStore (handleTimerComplete 1 25 1500000 (Some 1501000)
      (run [(0, Start 1 25 (Some 7)), (60000, Stop 1)] initialWorld))) = defaultStats \<and>
   getUserSession 1 (userStore (handleTimerComplete 1 25 1500000 (Some 1501000)
      (run [(0, Start 1 25 (Some 7)), (60000, Stop 1)] initialWorld))) =
     defaultSession\<lparr>plannedDuration := 25\<rparr> \<and>
   activeTimer 1 End (timerStore (handleTimerComplete 1 25 1500000 (Some 1501000)
      (run [(0, Start 1 25 (Some 7)), (60000, Stop 1)] initialWorld))) = None \<and>
   sessionState (getUserSession 1 (userStore (handleTimerComplete 1 25 1500000 (Some 1501000)
      (run [(0, Start 1 25 (Some 7))] initialWorld)))) = Idle \<and>
   activeTimer 1 End (timerStore (run [(0, Start 1 25 (Some 7))] initialWorld)) =
     Some (EndJob 1500000 25) \<and>
   totalSessions (getUserStats 1 (userStore (snd (startFocusTimer 1 30 1200000 (Some 8)
      (run [(0, Start 1 25 (Some 7))] initialWorld))))) = 1 \<and>
   activeTimer 1 End (timerStore (snd (startFocusTimer 1 30 1200000 (Some 8)
      (run [(0, Start 1 25 (Some 7))] initialWorld)))) = Some (EndJob 3000000 30) \<and>
   sessionState (getUserSession 1 (userStore (snd (startFocusTimer 1 30 1200000 None
      (run [(0, Start 1 25 (Some 7))] initialWorld))))) = Running \<and>
   activeTimer 1 End (timerStore (snd (startFocusTimer 1 30 1200000 None
      (run [(0, Start 1 25 (Some 7))] initialWorld)))) = None"
  using completion_guard_is_studying
          [of 1 "run [(0, Start 1 25 (Some 7)), (60000, Stop 1)] initialWorld"
              25 1500000 "Some 1501000" 0 1500000 "Some 7" 7]
        completion_guard_is_studying
          [of 1 "run [(0, Start 1 25 (Some 7))] initialWorld" 25 1500000 "Some 1501000"
              0 1500000 "Some 7" 7]
        completion_guard_is_studying
          [of 1 "run [(0, Start 1 25 (Some 7))] initialWorld" 30 1200000 "Some 1501000"
              0 1500000 "Some 8" 8]
        completion_guard_is_studying
          [of 1 "run [(0, Start 1 25 (Some 7))] initialWorld" 30 1200000 "Some 1501000"
              0 1500000 None 8]
  by (simp add: session_after stats_after timers_after timerStore_startFocusTimer_None eval_defs)

end
